theory Spec2Isabelle
  imports Complex_Main "HOL-Library.Sublist"
begin

section \<open>Values shared by the two programs\<close>

text \<open>
  The folder analyzer is two Python programs. \<^verbatim>\<open>image_analyzer/core.py\<close> analyses one
  image through a vision-model client; \<^verbatim>\<open>process_folder/folder_processor.py\<close> finds the
  media files of a folder, runs one external analyzer per file and collects what they wrote.

  Python exceptions are values: a function that may raise returns \<open>exn + 'a\<close>, with \<open>Inl\<close>
  for the exception, and a \<^verbatim>\<open>try/except Exception\<close> is a case distinction on that sum.
  Only subclasses of \<^verbatim>\<open>Exception\<close> are modelled; console output and logging are left out,
  they change no returned value. Paths follow \<^verbatim>\<open>posixpath\<close>.
\<close>

datatype exn =
    FileNotFoundError string
  | ValueError string
  | TypeError string
  | AttributeError string
  | KeyError string
  | OSError string
  | OtherException string

text \<open>A string between single quotes, as the repr of a string and many messages have it.\<close>

definition quoted :: "string \<Rightarrow> string" where
  "quoted s = [CHR 0x27] @ s @ [CHR 0x27]"

text \<open>\<^verbatim>\<open>str(e)\<close>. A \<^verbatim>\<open>KeyError\<close> prints the repr of its key, in quotes.\<close>

fun str_exn :: "exn \<Rightarrow> string" where
  "str_exn (FileNotFoundError m) = m"
| "str_exn (ValueError m) = m"
| "str_exn (TypeError m) = m"
| "str_exn (AttributeError m) = m"
| "str_exn (KeyError k) = quoted k"
| "str_exn (OSError m) = m"
| "str_exn (OtherException m) = m"

text \<open>
  What \<^verbatim>\<open>json.load\<close> returns, and what a client's \<^verbatim>\<open>generate\<close> returns. An object is
  its list of members in document order; a lookup takes the first member with the key.
  Numbers are integers: no number is computed with in either program.
\<close>

datatype json =
    JNull
  | JBool bool
  | JNum int
  | JStr string
  | JArr "json list"
  | JObj "(string \<times> json) list"

text \<open>Truth value of a Python object, as \<^verbatim>\<open>or\<close>, \<^verbatim>\<open>if\<close> and \<^verbatim>\<open>not\<close> test it.\<close>

fun truthy :: "json \<Rightarrow> bool" where
  "truthy JNull = False"
| "truthy (JBool b) = b"
| "truthy (JNum n) = (n \<noteq> 0)"
| "truthy (JStr s) = (s \<noteq> [])"
| "truthy (JArr xs) = (xs \<noteq> [])"
| "truthy (JObj kvs) = (kvs \<noteq> [])"

text \<open>\<^verbatim>\<open>len(x)\<close>: defined on strings, lists and dicts, a \<^verbatim>\<open>TypeError\<close> elsewhere.\<close>

fun py_len :: "json \<Rightarrow> exn + nat" where
  "py_len (JStr s) = Inr (length s)"
| "py_len (JArr xs) = Inr (length xs)"
| "py_len (JObj kvs) = Inr (length (remdups (map fst kvs)))"
| "py_len JNull = Inl (TypeError (''object of type '' @ quoted ''NoneType'' @ '' has no len()''))"
| "py_len (JBool b) = Inl (TypeError (''object of type '' @ quoted ''bool'' @ '' has no len()''))"
| "py_len (JNum n) = Inl (TypeError (''object of type '' @ quoted ''int'' @ '' has no len()''))"

section \<open>posixpath\<close>

text \<open>\<^verbatim>\<open>os.path.basename\<close>: what follows the last slash.\<close>

definition basename :: "string \<Rightarrow> string" where
  "basename p = rev (takeWhile (\<lambda>c. c \<noteq> CHR ''/'') (rev p))"

text \<open>\<^verbatim>\<open>os.path.join(a, b)\<close> for two components.\<close>

definition join :: "string \<Rightarrow> string \<Rightarrow> string" where
  "join a b =
     (if b \<noteq> [] \<and> hd b = CHR ''/'' then b
      else if a = [] \<or> last a = CHR ''/'' then a @ b
      else a @ ''/'' @ b)"

text \<open>\<^verbatim>\<open>str.lower\<close> on ASCII letters.\<close>

definition lower_char :: "char \<Rightarrow> char" where
  "lower_char c =
     (let n = (of_char c :: nat)
      in if 65 \<le> n \<and> n \<le> 90 then char_of (n + 32) else c)"

definition lower :: "string \<Rightarrow> string" where
  "lower s = map lower_char s"

text \<open>
  \<^verbatim>\<open>Path(p).suffix\<close>: the part of the last component from its last dot on, empty when the
  dot is the first or the last character of the name or when there is none.
\<close>

definition suffix_of :: "string \<Rightarrow> string" where
  "suffix_of p =
     (let name = basename p;
          ext = rev (takeWhile (\<lambda>c. c \<noteq> CHR ''.'') (rev name))
      in if CHR ''.'' \<notin> set name \<or> ext = [] \<or> length ext + 1 = length name then []
         else CHR ''.'' # ext)"

section \<open>image\_analyzer/core.py\<close>

subsection \<open>The environment of one analysis\<close>

text \<open>
  The file system and the configuration are read through these answers, fixed for the
  duration of one call: \<^verbatim>\<open>os.path.exists\<close>, \<^verbatim>\<open>os.path.abspath\<close>,
  \<^verbatim>\<open>os.path.getsize\<close>, \<^verbatim>\<open>open(p).read()\<close>, and
  \<^verbatim>\<open>config_manager.get_config().get('clients', {}).get('default')\<close>, which is \<open>None\<close>
  when the configuration names no default client.
\<close>

record os_env =
  path_exists :: "string \<Rightarrow> bool"
  abspath :: "string \<Rightarrow> string"
  getsize :: "string \<Rightarrow> exn + nat"
  read_text :: "string \<Rightarrow> exn + string"
  config_default :: "exn + string option"

text \<open>
  A client of the registry: its \<^verbatim>\<open>model\<close> attribute (\<open>None\<close> when the object has no such
  attribute, so that reading it raises) and its \<^verbatim>\<open>generate(prompt, image_path=...)\<close>.
  The client classes belong to the video analyzer and are not part of this repository.
\<close>

record client =
  client_model :: "string option"
  generate :: "string \<Rightarrow> string \<Rightarrow> exn + json"

type_synonym clients = "string \<Rightarrow> client option"

subsection \<open>AnalysisRecord\<close>

text \<open>
  The dictionary \<^verbatim>\<open>analyze_image\<close> returns. A key that one branch has and the other has
  not is an \<open>option\<close>: \<open>None\<close> means the key is absent from the dictionary.
\<close>

record analysis =
  client :: string
  model :: string
  prompt_used :: string
  description :: json

record metadata =
  file_size :: "nat option"
  mime_type :: "string option"
  analysis_successful :: bool

record AnalysisRecord =
  image_path :: string
  image_filename :: string
  analysis :: "analysis option"
  error :: "string option"
  metadata :: metadata

subsection \<open>\_get\_image\_mime\_type\<close>

definition mime_types :: "(string \<times> string) list" where
  "mime_types =
     [(''.jpg'', ''image/jpeg''), (''.jpeg'', ''image/jpeg''), (''.png'', ''image/png''),
      (''.gif'', ''image/gif''), (''.webp'', ''image/webp''), (''.bmp'', ''image/bmp'')]"

definition get_image_mime_type :: "string \<Rightarrow> string" where
  "get_image_mime_type p =
     (case map_of mime_types (lower (suffix_of p)) of
        None \<Rightarrow> ''image/jpeg''
      | Some m \<Rightarrow> m)"

subsection \<open>\_load\_frame\_prompt\<close>

text \<open>
  \<^verbatim>\<open>s.replace(old, new)\<close>: every occurrence of \<open>old\<close> found scanning from the left, the
  scan resuming after each replaced occurrence. The text put in is not scanned again.
  With an empty \<open>old\<close> Python puts \<open>new\<close> before every character and at the end.
\<close>

function str_replace :: "string \<Rightarrow> string \<Rightarrow> string \<Rightarrow> string" where
  "str_replace old new s =
     (if old = [] then new @ concat (map (\<lambda>c. c # new) s)
      else if s = [] then []
      else if prefix old s then new @ str_replace old new (drop (length old) s)
      else hd s # str_replace old new (tl s))"
  by pat_completeness auto
termination
  by (relation "measure (\<lambda>(old, new, s). length s)") (auto simp: neq_Nil_conv)

declare str_replace.simps [simp del]

definition marker :: string where
  "marker = ''{prompt}''"

definition prompt_paths :: "string list" where
  "prompt_paths =
     [join ''prompts'' ''image.txt'',
      join (join ''..'' ''prompts'') ''image.txt'',
      join (join (join ''..'' ''..'') ''prompts'') ''image.txt'']"

definition fallback_prompt :: string where
  "fallback_prompt =
     ''Analyze this image and provide a detailed description of what you see. \<newline>'' @
     ''Include information about:\<newline>'' @
     ''- Objects and people in the image\<newline>'' @
     ''- Actions or activities taking place\<newline>'' @
     ''- Setting and environment\<newline>'' @
     ''- Colors, lighting, and composition\<newline>'' @
     ''- Any text or signs visible\<newline>'' @
     ''\<newline>'' @
     ''{prompt}\<newline>'' @
     ''\<newline>'' @
     ''Provide a clear, detailed description in paragraph form.''"

text \<open>
  The loop over the candidate paths: the first path that exists is read and the loop is
  left, whatever the file holds; a failing read raises out of the function.
\<close>

fun read_first_prompt :: "os_env \<Rightarrow> string list \<Rightarrow> exn + string option" where
  "read_first_prompt env [] = Inr None"
| "read_first_prompt env (p # ps) =
     (if path_exists env p
      then (case read_text env p of Inl e \<Rightarrow> Inl e | Inr s \<Rightarrow> Inr (Some s))
      else read_first_prompt env ps)"

text \<open>\<^verbatim>\<open>if not frame_prompt\<close>: nothing was read, or the file read was empty.\<close>

definition frame_template :: "string option \<Rightarrow> string" where
  "frame_template r =
     (case r of
        None \<Rightarrow> fallback_prompt
      | Some s \<Rightarrow> if s = [] then fallback_prompt else s)"

text \<open>\<^verbatim>\<open>if custom_prompt\<close>: an absent question and the empty string take the else branch.\<close>

definition prompt_injection :: "string option \<Rightarrow> string" where
  "prompt_injection custom_prompt =
     (case custom_prompt of
        None \<Rightarrow> []
      | Some q \<Rightarrow> if q = [] then [] else ''I want to know: '' @ q)"

definition load_frame_prompt :: "os_env \<Rightarrow> string option \<Rightarrow> exn + string" where
  "load_frame_prompt env custom_prompt =
     (case read_first_prompt env prompt_paths of
        Inl e \<Rightarrow> Inl e
      | Inr r \<Rightarrow> Inr (str_replace marker (prompt_injection custom_prompt) (frame_template r)))"

subsection \<open>analyze\_image\<close>

text \<open>
  The name of the client to use: the argument, or when it is absent or empty the default
  of the configuration, \<^verbatim>\<open>'ollama'\<close> when the configuration has none.
\<close>

definition resolve_client_name :: "os_env \<Rightarrow> string option \<Rightarrow> exn + string" where
  "resolve_client_name env client_name =
     (case client_name of
        Some n \<Rightarrow>
          if n \<noteq> [] then Inr n
          else (case config_default env of
                  Inl e \<Rightarrow> Inl e
                | Inr d \<Rightarrow> Inr (case d of None \<Rightarrow> ''ollama'' | Some n' \<Rightarrow> n'))
      | None \<Rightarrow>
          (case config_default env of
             Inl e \<Rightarrow> Inl e
           | Inr d \<Rightarrow> Inr (case d of None \<Rightarrow> ''ollama'' | Some n' \<Rightarrow> n')))"

text \<open>
  \<^verbatim>\<open>client.model = model\<close> when a model is given: the client object is shared, so the
  registry is changed and stays changed after the call.
\<close>

definition override_model :: "clients \<Rightarrow> string \<Rightarrow> client \<Rightarrow> string option \<Rightarrow> clients \<times> client" where
  "override_model cs name c model_arg =
     (case model_arg of
        None \<Rightarrow> (cs, c)
      | Some m \<Rightarrow>
          if m = [] then (cs, c)
          else (cs(name \<mapsto> c\<lparr>client_model := Some m\<rparr>), c\<lparr>client_model := Some m\<rparr>))"

text \<open>
  The statements of the \<^verbatim>\<open>try\<close> block once the client object is in hand and the model
  override is done. Each \<open>Inl\<close> is a statement that raised.
\<close>

definition analyze_with_client ::
    "os_env \<Rightarrow> string \<Rightarrow> string \<Rightarrow> client \<Rightarrow> string option \<Rightarrow> exn + AnalysisRecord" where
  "analyze_with_client env path name c custom_prompt =
     (case client_model c of
        None \<Rightarrow> Inl (AttributeError (''client object has no attribute '' @ quoted ''model''))
      | Some used_model \<Rightarrow>
          (case load_frame_prompt env custom_prompt of
             Inl e \<Rightarrow> Inl e
           | Inr prompt \<Rightarrow>
               (case generate c prompt path of
                  Inl e \<Rightarrow> Inl e
                | Inr analysis_result \<Rightarrow>
                    (case py_len analysis_result of
                       Inl e \<Rightarrow> Inl e
                     | Inr n \<Rightarrow>
                         (case getsize env path of
                            Inl e \<Rightarrow> Inl e
                          | Inr size_bytes \<Rightarrow>
                              Inr \<lparr> image_path = abspath env path,
                                    image_filename = basename path,
                                    analysis = Some \<lparr> client = name, model = used_model,
                                                      prompt_used = prompt,
                                                      description = analysis_result \<rparr>,
                                    error = None,
                                    metadata = \<lparr> file_size = Some size_bytes,
                                                 mime_type = Some (get_image_mime_type path),
                                                 analysis_successful = True \<rparr> \<rparr>)))))"

text \<open>
  The body of the \<^verbatim>\<open>try\<close> block, with the registry as it is when the block is left.
\<close>

definition analyze_image_try ::
    "os_env \<Rightarrow> clients \<Rightarrow> string \<Rightarrow> string option \<Rightarrow> string option \<Rightarrow> string option
       \<Rightarrow> (exn + AnalysisRecord) \<times> clients" where
  "analyze_image_try env cs path client_name model_arg custom_prompt =
     (if \<not> path_exists env path
      then (Inl (FileNotFoundError (''Image file not found: '' @ path)), cs)
      else
        (case resolve_client_name env client_name of
           Inl e \<Rightarrow> (Inl e, cs)
         | Inr name \<Rightarrow>
             (case cs name of
                None \<Rightarrow> (Inl (ValueError (''Client '' @ quoted name @ '' not configured'')), cs)
              | Some c \<Rightarrow>
                  (let (cs', c') = override_model cs name c model_arg
                   in (analyze_with_client env path name c' custom_prompt, cs')))))"

text \<open>
  The \<^verbatim>\<open>except Exception\<close> handler builds the error record. It calls
  \<^verbatim>\<open>os.path.exists\<close>, \<^verbatim>\<open>os.path.abspath\<close>, \<^verbatim>\<open>os.path.basename\<close> and \<^verbatim>\<open>str\<close> on the
  path string and the exception; none of them raises on a string.
\<close>

definition error_record :: "os_env \<Rightarrow> string \<Rightarrow> exn \<Rightarrow> AnalysisRecord" where
  "error_record env path e =
     \<lparr> image_path = (if path_exists env path then abspath env path else path),
       image_filename = basename path,
       analysis = None,
       error = Some (str_exn e),
       metadata = \<lparr> file_size = None, mime_type = None, analysis_successful = False \<rparr> \<rparr>"

text \<open>
  \<^verbatim>\<open>ImageAnalyzer.analyze_image\<close>. The result type keeps an \<open>Inl\<close> for an exception that
  would leave the function.
\<close>

definition analyze_image ::
    "os_env \<Rightarrow> clients \<Rightarrow> string \<Rightarrow> string option \<Rightarrow> string option \<Rightarrow> string option
       \<Rightarrow> (exn + AnalysisRecord) \<times> clients" where
  "analyze_image env cs path client_name model_arg custom_prompt =
     (case analyze_image_try env cs path client_name model_arg custom_prompt of
        (Inr r, cs') \<Rightarrow> (Inr r, cs')
      | (Inl e, cs') \<Rightarrow> (Inr (error_record env path e), cs'))"

section \<open>process\_folder/folder\_processor.py\<close>

subsection \<open>The result map\<close>

datatype media_kind = Video | Image

text \<open>
  An entry of the result map: the dictionary with \<^verbatim>\<open>description\<close>, \<^verbatim>\<open>type\<close>,
  \<^verbatim>\<open>processing_time\<close>, \<^verbatim>\<open>transcript\<close> (videos only) and \<^verbatim>\<open>file_path\<close>, or the
  dictionary with \<^verbatim>\<open>error\<close> and \<^verbatim>\<open>type\<close>.
\<close>

datatype batch_entry =
    SuccessEntry json media_kind real "json option" string
  | ErrorEntry string media_kind

fun is_success :: "batch_entry \<Rightarrow> bool" where
  "is_success (SuccessEntry d k t tr p) = True"
| "is_success (ErrorEntry m k) = False"

text \<open>
  A Python dict keeps its keys in the order of their first insertion: assigning to a key
  that is there replaces the value where it stands, a new key goes to the end.
\<close>

type_synonym batch_map = "(string \<times> batch_entry) list"

fun dict_set :: "string \<Rightarrow> batch_entry \<Rightarrow> batch_map \<Rightarrow> batch_map" where
  "dict_set k v [] = [(k, v)]"
| "dict_set k v ((k', v') # m) = (if k' = k then (k, v) # m else (k', v') # dict_set k v m)"

text \<open>The files written by \<^verbatim>\<open>save_results\<close>: path to the map last dumped there.\<close>

type_synonym disk = "string \<Rightarrow> batch_map option"

subsection \<open>The environment of a batch\<close>

text \<open>
  \<open>Exited rc stderr\<close>, \<open>TimedOut\<close> and \<open>RunRaised e\<close> are the three ways the \<^verbatim>\<open>try\<close> block
  of \<^verbatim>\<open>process_video\<close> and \<^verbatim>\<open>process_image\<close> ends: \<^verbatim>\<open>subprocess.run\<close> returned,
  it raised \<^verbatim>\<open>TimeoutExpired\<close>, or building the command or starting the program raised
  something else.
\<close>

datatype run_outcome = Exited int string | TimedOut | RunRaised exn

text \<open>
  What the operating system answers during a batch. \<open>listdir\<close> is the directory scan of
  \<^verbatim>\<open>glob\<close> (\<open>None\<close>: the directory cannot be scanned, which \<^verbatim>\<open>glob\<close> takes for no
  entries); \<open>glob_dirs\<close> is the list of directories \<^verbatim>\<open>glob\<close> expands a directory part with
  wildcards to. The other answers take the media file being handled as first argument, so
  that they may differ from one item to the next: \<^verbatim>\<open>tempfile.mkdtemp()\<close>,
  \<^verbatim>\<open>os.makedirs(d, exist_ok=True)\<close> (\<open>None\<close>: done), the external analyzer run on an
  absolute path with an output directory, the seconds it took, \<^verbatim>\<open>os.path.exists\<close>,
  \<^verbatim>\<open>glob("output/*.json")\<close>, \<^verbatim>\<open>json.load\<close> of a file, and opening a file and dumping
  the map into it (\<open>None\<close>: written).
\<close>

record batch_env =
  listdir :: "string \<Rightarrow> string list option"
  glob_dirs :: "string \<Rightarrow> string list"
  abs_path_of :: "string \<Rightarrow> string"
  mkdtemp :: "string \<Rightarrow> exn + string"
  makedirs :: "string \<Rightarrow> string \<Rightarrow> exn option"
  run_analyzer :: "string \<Rightarrow> media_kind \<Rightarrow> string \<Rightarrow> string \<Rightarrow> run_outcome"
  run_time :: "string \<Rightarrow> real"
  file_exists :: "string \<Rightarrow> string \<Rightarrow> bool"
  glob_output_json :: "string \<Rightarrow> string list"
  load_json :: "string \<Rightarrow> string \<Rightarrow> exn + json"
  write_file :: "string \<Rightarrow> string \<Rightarrow> exn option"

subsection \<open>glob\<close>

definition has_magic :: "string \<Rightarrow> bool" where
  "has_magic s = (CHR ''*'' \<in> set s \<or> CHR ''?'' \<in> set s \<or> CHR ''['' \<in> set s)"

text \<open>
  \<^verbatim>\<open>fnmatch\<close> on a POSIX system, where \<^verbatim>\<open>os.path.normcase\<close> changes nothing and the
  match is case-sensitive. \<open>*\<close> stands for any run of characters and \<open>?\<close> for one; the
  bracket syntax is left out, no pattern of the program has it.
\<close>

fun fnmatch :: "string \<Rightarrow> string \<Rightarrow> bool" where
  "fnmatch [] [] = True"
| "fnmatch (c # cs) [] = False"
| "fnmatch [] (p # ps) = (p = CHR ''*'' \<and> fnmatch [] ps)"
| "fnmatch (c # cs) (p # ps) =
     (if p = CHR ''*'' then fnmatch (c # cs) ps \<or> fnmatch cs (p # ps)
      else if p = CHR ''?'' then fnmatch cs ps
      else p = c \<and> fnmatch cs ps)"

definition ishidden :: "string \<Rightarrow> bool" where
  "ishidden s = (s \<noteq> [] \<and> hd s = CHR ''.'')"

text \<open>
  The names of one directory that match a pattern. A name starting with a dot is left
  out unless the pattern starts with a dot too. The empty directory name is the current
  directory.
\<close>

definition glob1 :: "batch_env \<Rightarrow> string \<Rightarrow> string \<Rightarrow> string list" where
  "glob1 env dirname pattern =
     (case listdir env (if dirname = [] then ''.'' else dirname) of
        None \<Rightarrow> []
      | Some names \<Rightarrow>
          filter (\<lambda>n. fnmatch n pattern)
            (if ishidden pattern then names else filter (\<lambda>n. \<not> ishidden n) names))"

text \<open>\<^verbatim>\<open>str.rstrip('/')\<close>.\<close>

definition rstrip_slash :: "string \<Rightarrow> string" where
  "rstrip_slash s = rev (dropWhile (\<lambda>c. c = CHR ''/'') (rev s))"

text \<open>
  \<^verbatim>\<open>os.path.split\<close>: the path up to its last slash and what follows it; trailing
  slashes are taken off the first part unless it consists of slashes only.
\<close>

definition split_path :: "string \<Rightarrow> string \<times> string" where
  "split_path p =
     (let tail = basename p;
          head = take (length p - length tail) p
      in ((if rstrip_slash head = [] then head else rstrip_slash head), tail))"

text \<open>
  \<^verbatim>\<open>glob.glob(pathname)\<close> for a pathname whose last component has a wildcard, as every
  pattern of the program has. A directory part without wildcards is scanned as it is;
  one with wildcards stands for every directory it expands to, each scanned in turn.
\<close>

definition glob :: "batch_env \<Rightarrow> string \<Rightarrow> string list" where
  "glob env pathname =
     (let (dirname, pattern) = split_path pathname;
          dirs = (if has_magic dirname then glob_dirs env dirname else [dirname])
      in concat (map (\<lambda>d. map (join d) (glob1 env d pattern)) dirs))"

subsection \<open>find\_videos, find\_images, find\_all\_media\<close>

definition video_extensions :: "string list" where
  "video_extensions =
     [''*.mp4'', ''*.avi'', ''*.mov'', ''*.mkv'', ''*.wmv'', ''*.flv'', ''*.webm'', ''*.m4v'']"

definition image_extensions :: "string list" where
  "image_extensions = [''*.jpg'', ''*.jpeg'', ''*.png'', ''*.gif'', ''*.webp'', ''*.bmp'']"

definition find_videos :: "batch_env \<Rightarrow> string \<Rightarrow> string list" where
  "find_videos env folder_path =
     concat (map (\<lambda>extension. glob env (join (rstrip_slash folder_path) extension))
               video_extensions)"

definition find_images :: "batch_env \<Rightarrow> string \<Rightarrow> string list" where
  "find_images env folder_path =
     concat (map (\<lambda>extension. glob env (join (rstrip_slash folder_path) extension))
               image_extensions)"

definition find_all_media :: "batch_env \<Rightarrow> string \<Rightarrow> string list \<times> string list" where
  "find_all_media env folder_path = (find_videos env folder_path, find_images env folder_path)"

subsection \<open>process\_video, process\_image\<close>

text \<open>\<^verbatim>\<open>str\<close> of an integer, as the f-string of the return code prints it.\<close>

definition digit :: "nat \<Rightarrow> char" where
  "digit d =
     (if d = 0 then CHR ''0'' else if d = 1 then CHR ''1'' else if d = 2 then CHR ''2''
      else if d = 3 then CHR ''3'' else if d = 4 then CHR ''4'' else if d = 5 then CHR ''5''
      else if d = 6 then CHR ''6'' else if d = 7 then CHR ''7'' else if d = 8 then CHR ''8''
      else CHR ''9'')"

fun digits :: "nat \<Rightarrow> string" where
  "digits n = (if n < 10 then [digit n] else digits (n div 10) @ [digit (n mod 10)])"

declare digits.simps [simp del]

definition str_int :: "int \<Rightarrow> string" where
  "str_int i = (if i < 0 then CHR ''-'' # digits (nat (- i)) else digits (nat i))"

text \<open>\<^verbatim>\<open>os.makedirs(d, exist_ok=True)\<close>: the empty path is refused whatever the disk holds.\<close>

definition py_makedirs :: "batch_env \<Rightarrow> string \<Rightarrow> string \<Rightarrow> exn option" where
  "py_makedirs env f d =
     (if d = [] then Some (FileNotFoundError (''[Errno 2] No such file or directory: '' @ quoted []))
      else makedirs env f d)"

text \<open>
  The result dictionary of \<^verbatim>\<open>process_video\<close> and \<^verbatim>\<open>process_image\<close>: the one with the
  key \<^verbatim>\<open>error\<close>, or the one with \<^verbatim>\<open>success\<close> and \<^verbatim>\<open>output_dir\<close>.
\<close>

datatype proc_result = ProcError string | ProcSuccess string

text \<open>
  The output directory is made before the \<^verbatim>\<open>try\<close> block, so a failure to make it
  raises out of the function. \<open>f\<close> is the media file as discovery returned it.
\<close>

definition process_video :: "batch_env \<Rightarrow> string \<Rightarrow> string \<Rightarrow> string option \<Rightarrow> exn + proc_result" where
  "process_video env f abs_path output_dir =
     (case (case output_dir of
              None \<Rightarrow> mkdtemp env f
            | Some d \<Rightarrow> (case py_makedirs env f d of Some e \<Rightarrow> Inl e | None \<Rightarrow> Inr d)) of
        Inl e \<Rightarrow> Inl e
      | Inr d \<Rightarrow>
          Inr (case run_analyzer env f Video abs_path d of
                 Exited returncode stderr \<Rightarrow>
                   if returncode \<noteq> 0
                   then ProcError (''Return code '' @ str_int returncode @ '': '' @ stderr)
                   else ProcSuccess d
               | TimedOut \<Rightarrow> ProcError ''Timeout processing video''
               | RunRaised e \<Rightarrow> ProcError (str_exn e)))"

definition process_image :: "batch_env \<Rightarrow> string \<Rightarrow> string \<Rightarrow> string option \<Rightarrow> exn + proc_result" where
  "process_image env f abs_path output_dir =
     (case (case output_dir of
              None \<Rightarrow> mkdtemp env f
            | Some d \<Rightarrow> (case py_makedirs env f d of Some e \<Rightarrow> Inl e | None \<Rightarrow> Inr d)) of
        Inl e \<Rightarrow> Inl e
      | Inr d \<Rightarrow>
          Inr (case run_analyzer env f Image abs_path d of
                 Exited returncode stderr \<Rightarrow>
                   if returncode \<noteq> 0
                   then ProcError (''Return code '' @ str_int returncode @ '': '' @ stderr)
                   else ProcSuccess d
               | TimedOut \<Rightarrow> ProcError ''Timeout processing image''
               | RunRaised e \<Rightarrow> ProcError (str_exn e)))"

subsection \<open>Reading the analyzer's JSON\<close>

fun type_name :: "json \<Rightarrow> string" where
  "type_name JNull = ''NoneType''"
| "type_name (JBool b) = ''bool''"
| "type_name (JNum n) = ''int''"
| "type_name (JStr s) = ''str''"
| "type_name (JArr xs) = ''list''"
| "type_name (JObj kvs) = ''dict''"

text \<open>\<^verbatim>\<open>x.get(k, default)\<close>: a method of dictionaries only.\<close>

fun py_get_default :: "json \<Rightarrow> string \<Rightarrow> json \<Rightarrow> exn + json" where
  "py_get_default (JObj kvs) k dflt = Inr (case map_of kvs k of None \<Rightarrow> dflt | Some v \<Rightarrow> v)"
| "py_get_default x k dflt =
     Inl (AttributeError (quoted (type_name x) @ '' object has no attribute '' @ quoted ''get''))"

text \<open>\<^verbatim>\<open>x.get(k)\<close>.\<close>

definition py_get :: "json \<Rightarrow> string \<Rightarrow> exn + json" where
  "py_get x k = py_get_default x k JNull"

text \<open>\<^verbatim>\<open>x[k]\<close> with a string \<open>k\<close>.\<close>

fun py_getitem :: "json \<Rightarrow> string \<Rightarrow> exn + json" where
  "py_getitem (JObj kvs) k = (case map_of kvs k of None \<Rightarrow> Inl (KeyError k) | Some v \<Rightarrow> Inr v)"
| "py_getitem (JStr s) k =
     Inl (TypeError (''string indices must be integers, not '' @ quoted ''str''))"
| "py_getitem (JArr xs) k = Inl (TypeError ''list indices must be integers or slices, not str'')"
| "py_getitem x k = Inl (TypeError (quoted (type_name x) @ '' object is not subscriptable''))"

text \<open>
  \<^verbatim>\<open>a or b\<close>: \<open>a\<close> when it is true, else \<open>b\<close>; \<open>b\<close> is not evaluated when \<open>a\<close> is true, so
  what it would raise is not raised.
\<close>

definition py_or :: "exn + json \<Rightarrow> exn + json \<Rightarrow> exn + json" where
  "py_or a b = (case a of Inl e \<Rightarrow> Inl e | Inr x \<Rightarrow> if truthy x then Inr x else b)"

text \<open>The description of a video: the first true value among three keys, else a default.\<close>

definition video_description :: "json \<Rightarrow> exn + json" where
  "video_description analysis_data =
     py_or (py_get analysis_data ''final_description'')
       (py_or (py_get analysis_data ''video_description'')
          (py_or (py_get analysis_data ''description'')
             (Inr (JStr ''No description available''))))"

text \<open>\<^verbatim>\<open>analysis_data.get("transcript")["text"] or "No transcript available"\<close>.\<close>

definition video_transcript :: "json \<Rightarrow> exn + json" where
  "video_transcript analysis_data =
     (case py_get analysis_data ''transcript'' of
        Inl e \<Rightarrow> Inl e
      | Inr t \<Rightarrow> py_or (py_getitem t ''text'') (Inr (JStr ''No transcript available'')))"

text \<open>The description of an image: under \<^verbatim>\<open>analysis\<close> first, then at top level.\<close>

definition image_analysis_response :: "json \<Rightarrow> exn + json" where
  "image_analysis_response analysis_data =
     (case py_get_default analysis_data ''analysis'' (JObj []) of
        Inl e \<Rightarrow> Inl e
      | Inr a \<Rightarrow>
          py_or (py_get a ''description'')
            (py_or (py_get analysis_data ''description'')
               (Inr (JStr ''No description available''))))"

text \<open>
  \<^verbatim>\<open>d[:100] + "..." if len(d) > 100 else d\<close>. Only a string can be sliced and extended
  by a string; a list or a dictionary of more than 100 elements raises.
\<close>

definition preview :: "json \<Rightarrow> exn + json" where
  "preview d =
     (case py_len d of
        Inl e \<Rightarrow> Inl e
      | Inr n \<Rightarrow>
          if n > 100 then
            (case d of
               JStr s \<Rightarrow> Inr (JStr (take 100 s @ ''...''))
             | JArr xs \<Rightarrow> Inl (TypeError ''can only concatenate list (not str) to list'')
             | _ \<Rightarrow> Inl (TypeError (''unhashable type: '' @ quoted ''slice'')))
          else Inr d)"

subsection \<open>save\_results\<close>

text \<open>
  \<^verbatim>\<open>os.makedirs(None)\<close> raises a \<^verbatim>\<open>TypeError\<close>. A write that fails leaves the file as it
  was.
\<close>

definition save_results ::
    "batch_env \<Rightarrow> string \<Rightarrow> batch_map \<Rightarrow> string option \<Rightarrow> disk \<Rightarrow> (exn + string) \<times> disk" where
  "save_results env f results output_dir dsk =
     (case output_dir of
        None \<Rightarrow>
          (Inl (TypeError ''expected str, bytes or os.PathLike object, not NoneType''), dsk)
      | Some d \<Rightarrow>
          (case py_makedirs env f d of
             Some e \<Rightarrow> (Inl e, dsk)
           | None \<Rightarrow>
               (let results_file = join d ''media_descriptions.json''
                in case write_file env f results_file of
                     Some e \<Rightarrow> (Inl e, dsk)
                   | None \<Rightarrow> (Inr results_file, dsk(results_file \<mapsto> results)))))"

subsection \<open>process\_folder\<close>

text \<open>
  \<^verbatim>\<open>os.path.splitext(name)[0]\<close> for a name without slash: the name up to its last dot,
  the whole name when there is no dot or only dots stand before the last one.
\<close>

definition splitext_root :: "string \<Rightarrow> string" where
  "splitext_root name =
     (let ext = rev (takeWhile (\<lambda>c. c \<noteq> CHR ''.'') (rev name));
          root = take (length name - length ext - 1) name
      in if CHR ''.'' \<in> set name \<and> list_ex (\<lambda>c. c \<noteq> CHR ''.'') root then root else name)"

text \<open>
  The output directory of one item: under the batch directory when one is given and is
  not the empty string, else none (the analyzer then writes to a temporary directory).
\<close>

definition media_output_dir :: "string option \<Rightarrow> string \<Rightarrow> string \<Rightarrow> string option" where
  "media_output_dir output_dir prefix_word clean_filename =
     (case output_dir of
        None \<Rightarrow> None
      | Some d \<Rightarrow>
          if d = [] then None
          else Some (join d (prefix_word @ splitext_root clean_filename)))"

text \<open>
  Where the statements of the \<^verbatim>\<open>try\<close> block of one item stand before the entry is
  stored: an exception was raised; an error entry was stored and \<^verbatim>\<open>continue\<close> left the
  iteration; or the success entry is built, together with the value the preview is taken
  of.
\<close>

datatype attempt = Raised exn | Skipped batch_entry | Built batch_entry json

definition video_json_file :: "batch_env \<Rightarrow> string \<Rightarrow> string \<Rightarrow> string option" where
  "video_json_file env f out_dir =
     (if file_exists env f (join out_dir ''analysis.json'')
      then Some (join out_dir ''analysis.json'')
      else (case glob_output_json env f of [] \<Rightarrow> None | j # js \<Rightarrow> Some j))"

definition image_json_file :: "batch_env \<Rightarrow> string \<Rightarrow> string \<Rightarrow> string option" where
  "image_json_file env f out_dir =
     (if file_exists env f (join out_dir ''image_analysis.json'')
      then Some (join out_dir ''image_analysis.json'')
      else if file_exists env f ''output/image_analysis.json''
      then Some ''output/image_analysis.json''
      else None)"

text \<open>
  The video entry from the parsed JSON. The transcript is read before the dictionary is
  built, and \<^verbatim>\<open>description["response"]\<close> while it is built. The preview of a video is
  taken of the extracted value, not of its \<^verbatim>\<open>response\<close>.
\<close>

definition video_entry :: "json \<Rightarrow> real \<Rightarrow> string \<Rightarrow> attempt" where
  "video_entry analysis_data secs abs_path =
     (case video_description analysis_data of
        Inl e \<Rightarrow> Raised e
      | Inr extracted \<Rightarrow>
          (case video_transcript analysis_data of
             Inl e \<Rightarrow> Raised e
           | Inr transcript \<Rightarrow>
               (case py_getitem extracted ''response'' of
                  Inl e \<Rightarrow> Raised e
                | Inr response \<Rightarrow>
                    Built (SuccessEntry response Video secs (Some transcript) abs_path)
                      extracted)))"

definition image_entry :: "json \<Rightarrow> real \<Rightarrow> string \<Rightarrow> attempt" where
  "image_entry analysis_data secs abs_path =
     (case image_analysis_response analysis_data of
        Inl e \<Rightarrow> Raised e
      | Inr analysis_response \<Rightarrow>
          (case py_getitem analysis_response ''response'' of
             Inl e \<Rightarrow> Raised e
           | Inr response \<Rightarrow> Built (SuccessEntry response Image secs None abs_path) response))"

definition video_attempt :: "batch_env \<Rightarrow> string option \<Rightarrow> string \<Rightarrow> attempt" where
  "video_attempt env output_dir video_file =
     (let clean_filename = basename video_file;
          abs_path = abs_path_of env video_file
      in case process_video env video_file abs_path
                (media_output_dir output_dir ''video_'' clean_filename) of
           Inl e \<Rightarrow> Raised e
         | Inr (ProcError msg) \<Rightarrow> Skipped (ErrorEntry msg Video)
         | Inr (ProcSuccess out_dir) \<Rightarrow>
             (case video_json_file env video_file out_dir of
                None \<Rightarrow> Skipped (ErrorEntry ''No JSON output found'' Video)
              | Some json_file \<Rightarrow>
                  (case load_json env video_file json_file of
                     Inl e \<Rightarrow> Raised e
                   | Inr analysis_data \<Rightarrow>
                       video_entry analysis_data (run_time env video_file) abs_path)))"

definition image_attempt :: "batch_env \<Rightarrow> string option \<Rightarrow> string \<Rightarrow> attempt" where
  "image_attempt env output_dir image_file =
     (let clean_filename = basename image_file;
          abs_path = abs_path_of env image_file
      in case process_image env image_file abs_path
                (media_output_dir output_dir ''image_'' clean_filename) of
           Inl e \<Rightarrow> Raised e
         | Inr (ProcError msg) \<Rightarrow> Skipped (ErrorEntry msg Image)
         | Inr (ProcSuccess out_dir) \<Rightarrow>
             (case image_json_file env image_file out_dir of
                None \<Rightarrow> Skipped (ErrorEntry ''No JSON output found'' Image)
              | Some json_file \<Rightarrow>
                  (case load_json env image_file json_file of
                     Inl e \<Rightarrow> Raised e
                   | Inr analysis_data \<Rightarrow>
                       image_entry analysis_data (run_time env image_file) abs_path)))"

text \<open>
  The \<^verbatim>\<open>try\<close> block of one item on the result map and the disk: the exception that left
  it, if any, and the state it left. The success entry is stored, then the whole map is
  saved, then the preview is taken; the two last may raise with the entry already stored.
  The block is the same for the two kinds of media but for the attempt.
\<close>

definition item_try ::
    "batch_env \<Rightarrow> string option \<Rightarrow> string \<Rightarrow> attempt \<Rightarrow> batch_map \<times> disk
       \<Rightarrow> exn option \<times> batch_map \<times> disk" where
  "item_try env output_dir media_file att st =
     (let (results, dsk) = st; clean_filename = basename media_file
      in case att of
           Raised e \<Rightarrow> (Some e, results, dsk)
         | Skipped entry \<Rightarrow> (None, dict_set clean_filename entry results, dsk)
         | Built entry shown \<Rightarrow>
             (let results' = dict_set clean_filename entry results
              in case save_results env media_file results' output_dir dsk of
                   (Inl e, dsk') \<Rightarrow> (Some e, results', dsk')
                 | (Inr results_file, dsk') \<Rightarrow>
                     (case preview shown of
                        Inl e \<Rightarrow> (Some e, results', dsk')
                      | Inr p \<Rightarrow> (None, results', dsk'))))"

text \<open>One iteration: the \<^verbatim>\<open>try\<close> block and its \<^verbatim>\<open>except Exception\<close> handler.\<close>

definition process_item ::
    "batch_env \<Rightarrow> string option \<Rightarrow> media_kind \<Rightarrow> string \<Rightarrow> batch_map \<times> disk \<Rightarrow> batch_map \<times> disk" where
  "process_item env output_dir kind media_file st =
     (case item_try env output_dir media_file
             (case kind of
                Video \<Rightarrow> video_attempt env output_dir media_file
              | Image \<Rightarrow> image_attempt env output_dir media_file) st of
        (None, results, dsk) \<Rightarrow> (results, dsk)
      | (Some e, results, dsk) \<Rightarrow>
          (dict_set (basename media_file) (ErrorEntry (str_exn e) kind) results, dsk))"

text \<open>The two \<^verbatim>\<open>for\<close> loops.\<close>

fun process_queue ::
    "batch_env \<Rightarrow> string option \<Rightarrow> media_kind \<Rightarrow> string list \<Rightarrow> batch_map \<times> disk \<Rightarrow> batch_map \<times> disk" where
  "process_queue env output_dir kind [] st = st"
| "process_queue env output_dir kind (media_file # rest) st =
     process_queue env output_dir kind rest (process_item env output_dir kind media_file st)"

text \<open>
  \<^verbatim>\<open>process_folder\<close>, from the disk as the batch finds it to the result map and the disk
  as the batch leaves it.
\<close>

definition process_folder ::
    "batch_env \<Rightarrow> string \<Rightarrow> string option \<Rightarrow> disk \<Rightarrow> batch_map \<times> disk" where
  "process_folder env folder_path output_dir dsk =
     (let (video_files, image_files) = find_all_media env folder_path
      in if length video_files + length image_files = 0 then ([], dsk)
         else process_queue env output_dir Image image_files
                (process_queue env output_dir Video video_files ([], dsk)))"

section \<open>Notions used to state the properties\<close>

text \<open>
  Whether \<^verbatim>\<open>save_results\<close> raises while the item \<open>f\<close> is handled, and what. It depends
  on the output directory and the disk only, not on the map that is saved.
\<close>

definition save_outcome :: "batch_env \<Rightarrow> string \<Rightarrow> string option \<Rightarrow> exn option" where
  "save_outcome env f output_dir =
     (case output_dir of
        None \<Rightarrow> Some (TypeError ''expected str, bytes or os.PathLike object, not NoneType'')
      | Some d \<Rightarrow>
          (case py_makedirs env f d of
             Some e \<Rightarrow> Some e
           | None \<Rightarrow> write_file env f (join d ''media_descriptions.json'')))"

definition attempt_of :: "batch_env \<Rightarrow> string option \<Rightarrow> media_kind \<Rightarrow> string \<Rightarrow> attempt" where
  "attempt_of env output_dir kind f =
     (case kind of
        Video \<Rightarrow> video_attempt env output_dir f
      | Image \<Rightarrow> image_attempt env output_dir f)"

text \<open>
  The entry that handling the file \<open>f\<close> leaves in the map under the name of \<open>f\<close>: the
  entry of a \<^verbatim>\<open>continue\<close> path, the error entry of the handler when the attempt, the
  save or the preview raised, else the success entry.
\<close>

definition recorded_entry :: "batch_env \<Rightarrow> string option \<Rightarrow> media_kind \<Rightarrow> string \<Rightarrow> batch_entry" where
  "recorded_entry env output_dir kind f =
     (case attempt_of env output_dir kind f of
        Raised e \<Rightarrow> ErrorEntry (str_exn e) kind
      | Skipped entry \<Rightarrow> entry
      | Built entry shown \<Rightarrow>
          (case save_outcome env f output_dir of
             Some e \<Rightarrow> ErrorEntry (str_exn e) kind
           | None \<Rightarrow>
               (case preview shown of
                  Inl e \<Rightarrow> ErrorEntry (str_exn e) kind
                | Inr p \<Rightarrow> entry)))"

text \<open>
  The keys of a dict after the keys \<open>ks\<close> were assigned in this order, starting from the
  empty dict: every key once, at the place of its first assignment.
\<close>

definition insertion_order :: "string list \<Rightarrow> string list" where
  "insertion_order ks = foldl (\<lambda>acc k. if k \<in> set acc then acc else acc @ [k]) [] ks"

text \<open>The extension patterns without their star: what a discovered name ends in.\<close>

definition video_suffixes :: "string list" where
  "video_suffixes = map tl video_extensions"

definition image_suffixes :: "string list" where
  "image_suffixes = map tl image_extensions"



definition env_no_prompts :: os_env where
  "env_no_prompts =
     \<lparr> path_exists = (\<lambda>p. p = ''/data/y.png''),
       abspath = (\<lambda>p. join ''/work'' p),
       getsize = (\<lambda>p. Inr 1024),
       read_text = (\<lambda>p. Inl (FileNotFoundError ''no such file'')),
       config_default = Inr None \<rparr>"

text \<open>
  Example inputs for the closed theorems below. A registry with one client, which answers
  every prompt with the same dictionary.
\<close>

definition clients_ollama :: clients where
  "clients_ollama =
     [''ollama'' \<mapsto> \<lparr> client_model = Some ''gemma3:latest'',
                       generate = (\<lambda>prompt path. Inr (JObj [(''response'', JStr ''a dog'')])) \<rparr>]"

text \<open>
  A batch environment in which no directory can be scanned and every analyzer run exits
  with code 1; the other environments change some of its answers.
\<close>

definition env_base :: batch_env where
  "env_base =
     \<lparr> listdir = (\<lambda>d. None),
       glob_dirs = (\<lambda>d. []),
       abs_path_of = (\<lambda>p. join ''/work'' p),
       mkdtemp = (\<lambda>f. Inr ''/tmp/tmpdir''),
       makedirs = (\<lambda>f d. None),
       run_analyzer = (\<lambda>f k p d. Exited 1 ''failed''),
       run_time = (\<lambda>f. 2),
       file_exists = (\<lambda>f p. True),
       glob_output_json = (\<lambda>f. []),
       load_json = (\<lambda>f p. Inl (FileNotFoundError ''no such file'')),
       write_file = (\<lambda>f p. None) \<rparr>"

text \<open>
  The folder pattern \<^verbatim>\<open>*\<close> stands for the directories \<^verbatim>\<open>a\<close> and \<^verbatim>\<open>b\<close>, each with a
  file \<^verbatim>\<open>x.mp4\<close>.
\<close>

definition env_collide :: batch_env where
  "env_collide = env_base
     \<lparr> listdir := (\<lambda>d. if d = ''a'' \<or> d = ''b'' then Some [''x.mp4''] else None),
       glob_dirs := (\<lambda>d. if d = ''*'' then [''a'', ''b''] else []) \<rparr>"

text \<open>What the video analyzer and the image analyzer write.\<close>

definition cat_json :: json where
  "cat_json =
     JObj [(''final_description'', JObj [(''response'', JStr ''a cat'')]),
           (''transcript'', JObj [(''text'', JStr ''meow'')])]"

definition dog_json :: json where
  "dog_json = JObj [(''analysis'', JObj [(''description'', JObj [(''response'', JStr ''a dog'')])])]"

text \<open>
  The folder \<^verbatim>\<open>/data\<close> with two videos and an image; the analyzer fails on \<^verbatim>\<open>b.mp4\<close>
  and succeeds on the two others.
\<close>

definition env_media :: batch_env where
  "env_media = env_base
     \<lparr> listdir := (\<lambda>d. if d = ''/data'' then Some [''a.mp4'', ''b.mp4'', ''y.png''] else None),
       run_analyzer := (\<lambda>f k p d. if f = ''/data/b.mp4'' then Exited 1 ''failed'' else Exited 0 []),
       load_json := (\<lambda>f p. if f = ''/data/a.mp4'' then Inr cat_json else Inr dog_json) \<rparr>"

text \<open>The folder \<^verbatim>\<open>/photos\<close> with the same picture under an upper-case and a lower-case name.\<close>

definition env_photos :: batch_env where
  "env_photos = env_base
     \<lparr> listdir := (\<lambda>d. if d = ''/photos'' then Some [''PHOTO.JPG'', ''photo.jpg''] else None) \<rparr>"



section \<open>Properties of the single-item analyzer\<close>

lemma analyze_with_client_branch:
  "analyze_with_client env path name c q = Inr r \<Longrightarrow>
     analysis r \<noteq> None \<and> error r = None \<and> analysis_successful (metadata r)"
  by (auto simp: analyze_with_client_def split: option.splits sum.splits)

lemma analyze_image_try_branch:
  "analyze_image_try env cs path cn m q = (Inr r, cs') \<Longrightarrow>
     analysis r \<noteq> None \<and> error r = None \<and> analysis_successful (metadata r)"
  by (auto simp: analyze_image_try_def split: if_splits option.splits sum.splits prod.splits
           dest: analyze_with_client_branch)


text \<open>
  C2. The record returned by \<^verbatim>\<open>analyze_image\<close> has exactly one of the keys
  \<^verbatim>\<open>analysis\<close> and \<^verbatim>\<open>error\<close>, and \<^verbatim>\<open>metadata.analysis_successful\<close> is true exactly
  when \<^verbatim>\<open>analysis\<close> is the one present.
\<close>

theorem analyze_image_branch_invariant:
  assumes "analyze_image env cs path client_name model_arg custom_prompt = (res, cs')"
  shows "\<exists>r. res = Inr r
           \<and> ((analysis r \<noteq> None) \<noteq> (error r \<noteq> None))
           \<and> (analysis_successful (metadata r) \<longleftrightarrow> analysis r \<noteq> None)"
proof (cases "analyze_image_try env cs path client_name model_arg custom_prompt")
  case (Pair t cs'')
  show ?thesis
  proof (cases t)
    case (Inl e)
    with Pair assms show ?thesis
      by (auto simp: analyze_image_def error_record_def)
  next
    case (Inr r)
    with Pair have "analysis r \<noteq> None \<and> error r = None \<and> analysis_successful (metadata r)"
      using analyze_image_try_branch by blast
    with Pair Inr assms show ?thesis
      by (auto simp: analyze_image_def)
  qed
qed


subsection \<open>The prompt builder\<close>















section \<open>Properties of the batch driver\<close>

subsection \<open>The result map\<close>

lemma dict_set_twice: "dict_set k v (dict_set k v' m) = dict_set k v m"
  by (induction m) auto

lemma dict_set_keys:
  "map fst (dict_set k v m) = (if k \<in> set (map fst m) then map fst m else map fst m @ [k])"
  by (induction m) (auto simp: rev_image_eqI)



lemma save_results_fst:
  "fst (save_results env f results output_dir dsk) =
     (case save_outcome env f output_dir of
        Some e \<Rightarrow> Inl e
      | None \<Rightarrow> Inr (join (the output_dir) ''media_descriptions.json''))"
  by (auto simp: save_results_def save_outcome_def Let_def split: option.splits)

lemma process_item_map:
  "fst (process_item env output_dir kind f (results, dsk)) =
     dict_set (basename f) (recorded_entry env output_dir kind f) results"
proof (cases "attempt_of env output_dir kind f")
  case (Raised e)
  then show ?thesis
    by (cases kind) (auto simp: process_item_def item_try_def recorded_entry_def attempt_of_def)
next
  case (Skipped entry)
  then show ?thesis
    by (cases kind) (auto simp: process_item_def item_try_def recorded_entry_def attempt_of_def)
next
  case (Built entry shown)
  obtain r d where sr:
    "save_results env f (dict_set (basename f) entry results) output_dir dsk = (r, d)"
    by (cases "save_results env f (dict_set (basename f) entry results) output_dir dsk")
  have r: "r = (case save_outcome env f output_dir of
                  Some e \<Rightarrow> Inl e
                | None \<Rightarrow> Inr (join (the output_dir) ''media_descriptions.json''))"
    using save_results_fst [of env f "dict_set (basename f) entry results" output_dir dsk] sr
    by simp
  show ?thesis
    using Built sr r
    by (cases kind; cases "save_outcome env f output_dir"; cases "preview shown")
       (auto simp: process_item_def item_try_def recorded_entry_def attempt_of_def dict_set_twice)
qed

lemma process_queue_map:
  "fst (process_queue env output_dir kind fs st) =
     foldl (\<lambda>m f. dict_set (basename f) (recorded_entry env output_dir kind f) m) (fst st) fs"
proof (induction fs arbitrary: st)
  case Nil
  show ?case by simp
next
  case (Cons f fs)
  obtain results dsk where st: "st = (results, dsk)" by (cases st)
  show ?case
    using Cons.IH [of "process_item env output_dir kind f st"]
      process_item_map [of env output_dir kind f results dsk]
    by (simp add: st)
qed


lemma foldl_dict_set_keys:
  "map fst (foldl (\<lambda>m f. dict_set (g f) (h f) m) m fs) =
     foldl (\<lambda>acc k. if k \<in> set acc then acc else acc @ [k]) (map fst m) (map g fs)"
  by (induction fs arbitrary: m) (auto simp: dict_set_keys)

lemma insertion_order_append_aux:
  "set ks \<inter> set a = {} \<Longrightarrow>
     foldl (\<lambda>acc k. if k \<in> set acc then acc else acc @ [k]) (a @ b) ks =
     a @ foldl (\<lambda>acc k. if k \<in> set acc then acc else acc @ [k]) b ks"
proof (induction ks arbitrary: b)
  case Nil
  show ?case by simp
next
  case (Cons k ks)
  have "k \<notin> set a" using Cons.prems by auto
  moreover have "set ks \<inter> set a = {}" using Cons.prems by auto
  ultimately show ?case
    using Cons.IH [of b] Cons.IH [of "b @ [k]"] by auto
qed

lemma insertion_order_from:
  "set ks \<inter> set a = {} \<Longrightarrow>
     foldl (\<lambda>acc k. if k \<in> set acc then acc else acc @ [k]) a ks = a @ insertion_order ks"
  using insertion_order_append_aux [of ks a "[]"] by (simp add: insertion_order_def)

lemma insertion_order_set: "set (insertion_order ks) = set ks"
proof -
  have "set (foldl (\<lambda>acc k. if k \<in> set acc then acc else acc @ [k]) a ks) = set a \<union> set ks"
    for a :: "string list"
    by (induction ks arbitrary: a) auto
  then show ?thesis by (simp add: insertion_order_def)
qed

subsection \<open>Paths and patterns\<close>

lemma fnmatch_literal:
  "CHR ''*'' \<notin> set lit \<Longrightarrow> CHR ''?'' \<notin> set lit \<Longrightarrow> fnmatch n lit \<longleftrightarrow> n = lit"
  by (induction n lit rule: fnmatch.induct) auto

lemma fnmatch_star:
  "CHR ''*'' \<notin> set lit \<Longrightarrow> CHR ''?'' \<notin> set lit \<Longrightarrow>
     fnmatch n (CHR ''*'' # lit) \<longleftrightarrow> suffix lit n"
proof (induction n)
  case Nil
  then show ?case by (cases lit) (auto simp: fnmatch_literal)
next
  case (Cons c cs)
  then show ?case by (auto simp: fnmatch_literal suffix_Cons)
qed

lemma basename_no_slash: "CHR ''/'' \<notin> set s \<Longrightarrow> basename s = s"
proof -
  assume a: "CHR ''/'' \<notin> set s"
  have h: "takeWhile (\<lambda>c. c \<noteq> CHR ''/'') (rev s) = rev s"
    using a by (subst takeWhile_eq_all_conv) auto
  show ?thesis unfolding basename_def h by (rule rev_rev_ident)
qed

lemma basename_append_slash: "CHR ''/'' \<notin> set s \<Longrightarrow> basename (a @ CHR ''/'' # s) = s"
proof -
  assume a: "CHR ''/'' \<notin> set s"
  have h: "takeWhile (\<lambda>c. c \<noteq> CHR ''/'') (rev s @ CHR ''/'' # rev a) = rev s"
    using a by (subst takeWhile_append2) auto
  have r: "rev (a @ CHR ''/'' # s) = rev s @ CHR ''/'' # rev a" by simp
  show ?thesis unfolding basename_def r h by (rule rev_rev_ident)
qed

lemma suffix_basename:
  assumes "suffix lit p" "CHR ''/'' \<notin> set lit"
  shows "suffix lit (basename p)"
proof -
  obtain q where p: "p = q @ lit" using assms(1) by (auto simp: suffix_def)
  have h: "takeWhile (\<lambda>c. c \<noteq> CHR ''/'') (rev lit @ rev q) =
             rev lit @ takeWhile (\<lambda>c. c \<noteq> CHR ''/'') (rev q)"
    using assms(2) by (intro takeWhile_append2) auto
  have "basename p = rev (takeWhile (\<lambda>c. c \<noteq> CHR ''/'') (rev q)) @ lit"
    unfolding basename_def p rev_append h by simp
  then show ?thesis by (simp add: suffix_def)
qed

lemma suffix_join: "suffix b (join a b)"
  by (auto simp: join_def suffix_def)

lemma rstrip_slash_last: "rstrip_slash s = [] \<or> last (rstrip_slash s) \<noteq> CHR ''/''"
proof (cases "dropWhile (\<lambda>c. c = CHR ''/'') (rev s)")
  case Nil
  then show ?thesis by (simp add: rstrip_slash_def)
next
  case (Cons x xs)
  then have "\<not> (x = CHR ''/'')" using hd_dropWhile [of "\<lambda>c. c = CHR ''/''" "rev s"] by auto
  with Cons show ?thesis by (simp add: rstrip_slash_def)
qed

lemma rstrip_slash_id: "s = [] \<or> last s \<noteq> CHR ''/'' \<Longrightarrow> rstrip_slash s = s"
proof (cases s rule: rev_cases)
  case Nil
  then show ?thesis by (simp add: rstrip_slash_def)
next
  case (snoc ys y)
  assume "s = [] \<or> last s \<noteq> CHR ''/''"
  with snoc have "y \<noteq> CHR ''/''" by simp
  with snoc show ?thesis by (simp add: rstrip_slash_def)
qed

lemma rstrip_slash_snoc:
  assumes "fo \<noteq> []" "last fo \<noteq> CHR ''/''"
  shows "rstrip_slash (fo @ [CHR ''/'']) = fo"
proof -
  have "rstrip_slash (fo @ [CHR ''/'']) = rstrip_slash fo"
    by (simp add: rstrip_slash_def)
  then show ?thesis using assms rstrip_slash_id [of fo] by simp
qed

lemma join_empty: "CHR ''/'' \<notin> set ext \<Longrightarrow> join [] ext = ext"
  by (cases ext) (auto simp: join_def)

lemma join_plain:
  "fo \<noteq> [] \<Longrightarrow> last fo \<noteq> CHR ''/'' \<Longrightarrow> CHR ''/'' \<notin> set ext \<Longrightarrow>
     join fo ext = fo @ CHR ''/'' # ext"
  by (cases ext) (auto simp: join_def)

lemma split_path_join:
  assumes fo: "fo = [] \<or> last fo \<noteq> CHR ''/''" and ext: "CHR ''/'' \<notin> set ext"
  shows "split_path (join fo ext) = (fo, ext)"
proof (cases "fo = []")
  case True
  have "split_path ext = ([], ext)"
    using ext by (simp add: split_path_def Let_def basename_no_slash rstrip_slash_def)
  then show ?thesis using True ext by (simp add: join_empty)
next
  case False
  then have l: "last fo \<noteq> CHR ''/''" using fo by simp
  have j: "join fo ext = fo @ CHR ''/'' # ext"
    using False l ext by (rule join_plain)
  have b: "basename (fo @ CHR ''/'' # ext) = ext" using ext by (rule basename_append_slash)
  have t: "take (length (fo @ CHR ''/'' # ext) - length ext) (fo @ CHR ''/'' # ext) =
             fo @ [CHR ''/'']"
    by simp
  have r: "rstrip_slash (fo @ [CHR ''/'']) = fo" using False l by (rule rstrip_slash_snoc)
  show ?thesis
    unfolding j split_path_def Let_def b t r using False by simp
qed

text \<open>
  What \<^verbatim>\<open>glob\<close> returns for \<^verbatim>\<open>folder/*lit\<close>: in every directory the pattern stands for,
  the names that end in \<open>lit\<close> and do not start with a dot.
\<close>

lemma glob_star:
  assumes lit: "CHR ''*'' \<notin> set lit" "CHR ''?'' \<notin> set lit" "CHR ''/'' \<notin> set lit"
  shows "glob env (join (rstrip_slash folder) (CHR ''*'' # lit)) =
           concat (map (\<lambda>d. map (join d)
                     (filter (\<lambda>n. suffix lit n)
                        (filter (\<lambda>n. \<not> ishidden n)
                           (case listdir env (if d = [] then ''.'' else d) of
                              None \<Rightarrow> [] | Some names \<Rightarrow> names))))
                   (if has_magic (rstrip_slash folder)
                    then glob_dirs env (rstrip_slash folder)
                    else [rstrip_slash folder]))"
proof -
  have sp: "split_path (join (rstrip_slash folder) (CHR ''*'' # lit)) =
              (rstrip_slash folder, CHR ''*'' # lit)"
    using rstrip_slash_last [of folder] lit(3) by (intro split_path_join) auto
  have g1: "glob1 env d (CHR ''*'' # lit) =
              filter (\<lambda>n. suffix lit n)
                (filter (\<lambda>n. \<not> ishidden n)
                   (case listdir env (if d = [] then ''.'' else d) of
                      None \<Rightarrow> [] | Some names \<Rightarrow> names))" for d
    using lit(1,2) by (auto simp: glob1_def ishidden_def fnmatch_star split: option.splits)
  show ?thesis
    unfolding glob_def sp by (simp add: g1 Let_def)
qed


subsection \<open>The two loops\<close>

lemma process_folder_map:
  "fst (process_folder env folder output_dir dsk) =
     foldl (\<lambda>m f. dict_set (basename f) (recorded_entry env output_dir Image f) m)
       (foldl (\<lambda>m f. dict_set (basename f) (recorded_entry env output_dir Video f) m) []
          (find_videos env folder))
       (find_images env folder)"
  by (simp add: process_folder_def find_all_media_def process_queue_map)

lemma glob_suffix:
  assumes lit: "CHR ''*'' \<notin> set lit" "CHR ''?'' \<notin> set lit" "CHR ''/'' \<notin> set lit"
    and p: "p \<in> set (glob env (join (rstrip_slash folder) (CHR ''*'' # lit)))"
  shows "suffix lit (basename p)"
proof -
  from p obtain d n where "p = join d n" "suffix lit n"
    unfolding glob_star [OF lit] by auto
  then have "suffix lit p" using suffix_join [of n d] by (auto intro: suffix_order.trans)
  then show ?thesis using lit(3) by (rule suffix_basename)
qed

lemma find_videos_suffix:
  assumes "p \<in> set (find_videos env folder)"
  shows "\<exists>lit \<in> set video_suffixes. suffix lit (basename p)"
proof -
  from assms obtain ext where ext: "ext \<in> set video_extensions"
    and p: "p \<in> set (glob env (join (rstrip_slash folder) ext))"
    by (auto simp: find_videos_def)
  from ext have "ext = CHR ''*'' # tl ext \<and> CHR ''*'' \<notin> set (tl ext) \<and> CHR ''?'' \<notin> set (tl ext)
      \<and> CHR ''/'' \<notin> set (tl ext)"
    by (auto simp: video_extensions_def)
  then have "suffix (tl ext) (basename p)"
    using p glob_suffix [of "tl ext" p env folder] by metis
  then show ?thesis using ext by (auto simp: video_suffixes_def)
qed

lemma find_images_suffix:
  assumes "p \<in> set (find_images env folder)"
  shows "\<exists>lit \<in> set image_suffixes. suffix lit (basename p)"
proof -
  from assms obtain ext where ext: "ext \<in> set image_extensions"
    and p: "p \<in> set (glob env (join (rstrip_slash folder) ext))"
    by (auto simp: find_images_def)
  from ext have "ext = CHR ''*'' # tl ext \<and> CHR ''*'' \<notin> set (tl ext) \<and> CHR ''?'' \<notin> set (tl ext)
      \<and> CHR ''/'' \<notin> set (tl ext)"
    by (auto simp: image_extensions_def)
  then have "suffix (tl ext) (basename p)"
    using p glob_suffix [of "tl ext" p env folder] by metis
  then show ?thesis using ext by (auto simp: image_suffixes_def)
qed

lemma suffixes_apart:
  "a \<in> set video_suffixes \<Longrightarrow> b \<in> set image_suffixes \<Longrightarrow> \<not> suffix a b \<and> \<not> suffix b a"
  by (auto simp: video_suffixes_def image_suffixes_def video_extensions_def
        image_extensions_def suffix_to_prefix)

lemma video_image_names_apart:
  "set (map basename (find_videos env folder)) \<inter> set (map basename (find_images env folder)) = {}"
proof -
  have False if v: "v \<in> set (find_videos env folder)" and i: "i \<in> set (find_images env folder)"
    and eq: "basename v = basename i" for v i
  proof -
    obtain a where a: "a \<in> set video_suffixes" "suffix a (basename v)"
      using find_videos_suffix [OF v] by auto
    obtain b where b: "b \<in> set image_suffixes" "suffix b (basename i)"
      using find_images_suffix [OF i] by auto
    have "suffix a b \<or> suffix b a"
      using a(2) b(2) eq suffix_same_cases [of a "basename i" b] by auto
    then show False using suffixes_apart [OF a(1) b(1)] by simp
  qed
  then show ?thesis by auto
qed

text \<open>
  C7. The keys of the returned map, in insertion order, are the names of the videos in
  the order discovery returned them (glob order, extension by extension), followed by
  the names of the images in theirs; a name that comes twice keeps its first place. No
  name belongs to both groups, so every video entry stands before every image entry.
\<close>

theorem process_folder_order:
  "map fst (fst (process_folder env folder output_dir dsk)) =
     insertion_order (map basename (find_videos env folder)) @
     insertion_order (map basename (find_images env folder))
   \<and> set (insertion_order (map basename (find_videos env folder))) \<inter>
     set (insertion_order (map basename (find_images env folder))) = {}"
proof -
  have v: "map fst (foldl (\<lambda>m f. dict_set (basename f) (recorded_entry env output_dir Video f) m) []
             (find_videos env folder)) = insertion_order (map basename (find_videos env folder))"
    by (simp add: foldl_dict_set_keys insertion_order_def)
  have "set (map basename (find_images env folder)) \<inter>
          set (insertion_order (map basename (find_videos env folder))) = {}"
    using video_image_names_apart [of env folder] by (auto simp: insertion_order_set)
  then have "foldl (\<lambda>acc k. if k \<in> set acc then acc else acc @ [k])
               (insertion_order (map basename (find_videos env folder)))
               (map basename (find_images env folder)) =
             insertion_order (map basename (find_videos env folder)) @
             insertion_order (map basename (find_images env folder))"
    by (rule insertion_order_from)
  then have "map fst (fst (process_folder env folder output_dir dsk)) =
     insertion_order (map basename (find_videos env folder)) @
     insertion_order (map basename (find_images env folder))"
    unfolding process_folder_map foldl_dict_set_keys by (simp add: insertion_order_def)
  moreover have "set (insertion_order (map basename (find_videos env folder))) \<inter>
     set (insertion_order (map basename (find_images env folder))) = {}"
    using video_image_names_apart [of env folder] by (simp add: insertion_order_set)
  ultimately show ?thesis by simp
qed




subsection \<open>A folder path without wildcards\<close>

lemma distinct_concat_map:
  "distinct xs \<Longrightarrow> (\<And>x. x \<in> set xs \<Longrightarrow> distinct (F x)) \<Longrightarrow>
     (\<And>x y. x \<in> set xs \<Longrightarrow> y \<in> set xs \<Longrightarrow> x \<noteq> y \<Longrightarrow> set (F x) \<inter> set (F y) = {}) \<Longrightarrow>
     distinct (concat (map F xs))"
proof (induction xs)
  case Nil
  show ?case by simp
next
  case (Cons x xs)
  have tl: "distinct (concat (map F xs))"
    using Cons.prems by (intro Cons.IH) auto
  have hd: "distinct (F x)" using Cons.prems(2) by simp
  have "set (F x) \<inter> set (F y) = {}" if "y \<in> set xs" for y
  proof -
    have "x \<noteq> y" using Cons.prems(1) that by auto
    then show ?thesis using Cons.prems(3) that by simp
  qed
  then show ?case using tl hd by auto
qed

lemma dotted_suffix_eq:
  assumes "suffix (CHR ''.'' # a) (CHR ''.'' # b)" "CHR ''.'' \<notin> set b"
  shows "a = b"
proof -
  from assms(1) have "CHR ''.'' # a = CHR ''.'' # b \<or> suffix (CHR ''.'' # a) b"
    by (simp add: suffix_Cons)
  moreover have "\<not> suffix (CHR ''.'' # a) b"
  proof
    assume "suffix (CHR ''.'' # a) b"
    then have "set (CHR ''.'' # a) \<subseteq> set b" by (rule set_mono_suffix)
    then show False using assms(2) by simp
  qed
  ultimately show ?thesis by simp
qed

lemma suffixes_dotted:
  "a \<in> set (video_suffixes @ image_suffixes) \<Longrightarrow> \<exists>e. a = CHR ''.'' # e \<and> CHR ''.'' \<notin> set e"
  by (auto simp: video_suffixes_def image_suffixes_def video_extensions_def
        image_extensions_def)

lemma all_suffixes_apart:
  assumes "a \<in> set (video_suffixes @ image_suffixes)" "b \<in> set (video_suffixes @ image_suffixes)"
    and "a \<noteq> b"
  shows "\<not> suffix a b"
proof
  assume s: "suffix a b"
  obtain ea where ea: "a = CHR ''.'' # ea" using suffixes_dotted [OF assms(1)] by auto
  obtain eb where eb: "b = CHR ''.'' # eb" "CHR ''.'' \<notin> set eb"
    using suffixes_dotted [OF assms(2)] by auto
  have "ea = eb" using s eb(2) unfolding ea eb(1) by (rule dotted_suffix_eq)
  then show False using assms(3) ea eb(1) by simp
qed

lemma basename_join_name:
  assumes "fo = [] \<or> last fo \<noteq> CHR ''/''" "CHR ''/'' \<notin> set n"
  shows "basename (join fo n) = n"
proof (cases "fo = []")
  case True
  then show ?thesis using assms(2) by (simp add: join_empty basename_no_slash)
next
  case False
  then have "join fo n = fo @ CHR ''/'' # n" using assms by (intro join_plain) auto
  then show ?thesis using assms(2) by (simp add: basename_append_slash)
qed

lemma plain_folder_names:
  assumes plain: "\<not> has_magic (rstrip_slash folder)"
    and names: "listdir env (if rstrip_slash folder = [] then ''.'' else rstrip_slash folder) = Some names"
    and slash: "\<forall>n \<in> set names. CHR ''/'' \<notin> set n"
    and lit: "CHR ''*'' \<notin> set lit" "CHR ''?'' \<notin> set lit" "CHR ''/'' \<notin> set lit"
  shows "map basename (glob env (join (rstrip_slash folder) (CHR ''*'' # lit))) =
           filter (\<lambda>n. suffix lit n) (filter (\<lambda>n. \<not> ishidden n) names)"
proof -
  have "map basename (map (join (rstrip_slash folder)) ns) = ns" if "set ns \<subseteq> set names" for ns
  proof -
    have "basename (join (rstrip_slash folder) n) = n" if "n \<in> set ns" for n
      using that \<open>set ns \<subseteq> set names\<close> slash rstrip_slash_last [of folder]
      by (intro basename_join_name) auto
    then show ?thesis by (simp add: map_idI)
  qed
  then show ?thesis
    using plain names by (simp add: glob_star [OF lit])
qed

lemma plain_folder_found:
  assumes plain: "\<not> has_magic (rstrip_slash folder)"
    and names: "listdir env (if rstrip_slash folder = [] then ''.'' else rstrip_slash folder) = Some names"
    and slash: "\<forall>n \<in> set names. CHR ''/'' \<notin> set n"
  shows "map basename (find_videos env folder @ find_images env folder) =
           concat (map (\<lambda>lit. filter (\<lambda>n. suffix lit n) (filter (\<lambda>n. \<not> ishidden n) names))
                     (video_suffixes @ image_suffixes))"
  by (simp add: find_videos_def find_images_def video_suffixes_def image_suffixes_def
        video_extensions_def image_extensions_def map_concat
        plain_folder_names [OF plain names slash])

text \<open>
  The hypothesis of C3 as amended holds for every folder path without wildcard: the names
  of one directory are distinct and have no slash, and no name ends in two extensions.
\<close>

lemma plain_folder_distinct_names:
  assumes plain: "\<not> has_magic (rstrip_slash folder)"
    and names: "listdir env (if rstrip_slash folder = [] then ''.'' else rstrip_slash folder) = Some names"
    and slash: "\<forall>n \<in> set names. CHR ''/'' \<notin> set n"
    and dist: "distinct names"
  shows "distinct (map basename (find_videos env folder @ find_images env folder))"
proof -
  have d: "distinct (video_suffixes @ image_suffixes)"
    by (simp add: video_suffixes_def image_suffixes_def video_extensions_def image_extensions_def)
  have apart: "set (filter (\<lambda>n. suffix a n) (filter (\<lambda>n. \<not> ishidden n) names)) \<inter>
               set (filter (\<lambda>n. suffix b n) (filter (\<lambda>n. \<not> ishidden n) names)) = {}"
    if "a \<in> set (video_suffixes @ image_suffixes)" "b \<in> set (video_suffixes @ image_suffixes)"
      "a \<noteq> b" for a b
  proof -
    have False if "suffix a n" "suffix b n" for n
    proof -
      have "suffix a b \<or> suffix b a" using that by (rule suffix_same_cases)
      then show False
        using all_suffixes_apart [of a b] all_suffixes_apart [of b a]
          \<open>a \<in> _\<close> \<open>b \<in> _\<close> \<open>a \<noteq> b\<close> by auto
    qed
    then show ?thesis by auto
  qed
  show ?thesis
    unfolding plain_folder_found [OF plain names slash]
    using d dist apart by (intro distinct_concat_map) auto
qed

subsection \<open>The claims on examples and in general\<close>

lemmas batch_eval =
  find_videos_def find_images_def find_all_media_def video_extensions_def image_extensions_def
  glob_def glob1_def split_path_def join_def basename_def rstrip_slash_def has_magic_def
  ishidden_def Let_def process_folder_def process_item_def item_try_def video_attempt_def
  image_attempt_def process_video_def process_image_def media_output_dir_def splitext_root_def
  py_makedirs_def video_json_file_def image_json_file_def video_entry_def image_entry_def
  video_description_def video_transcript_def image_analysis_response_def py_or_def py_get_def
  preview_def save_results_def str_int_def quoted_def digits.simps digit_def
  env_base_def env_collide_def env_media_def env_photos_def cat_json_def dog_json_def

lemma media_videos: "find_videos env_media ''/data'' = [''/data/a.mp4'', ''/data/b.mp4'']"
  by (simp add: batch_eval)

lemma media_images: "find_images env_media ''/data'' = [''/data/y.png'']"
  by (simp add: batch_eval)




text \<open>C2 on an example: an existing image, the default client, no template file.\<close>

theorem analyze_image_branch_invariant_witness:
  "\<exists>r. fst (analyze_image env_no_prompts clients_ollama ''/data/y.png'' None None None) = Inr r
        \<and> ((analysis r \<noteq> None) \<noteq> (error r \<noteq> None))
        \<and> (analysis_successful (metadata r) \<longleftrightarrow> analysis r \<noteq> None)"
  using analyze_image_branch_invariant
          [of env_no_prompts clients_ollama "''/data/y.png''" None None None
              "fst (analyze_image env_no_prompts clients_ollama ''/data/y.png'' None None None)"
              "snd (analyze_image env_no_prompts clients_ollama ''/data/y.png'' None None None)"]
  by simp




text \<open>
  C6. The patterns are the lower-case ones only (the upper-case globs are commented out
  in \<^verbatim>\<open>find_videos\<close> and \<^verbatim>\<open>find_images\<close>), and the match is case-sensitive: in a folder
  holding \<^verbatim>\<open>PHOTO.JPG\<close> and \<^verbatim>\<open>photo.jpg\<close>, discovery returns the second only.
\<close>

theorem uppercase_not_discovered:
  "listdir env_photos ''/photos'' = Some [''PHOTO.JPG'', ''photo.jpg'']
   \<and> find_images env_photos ''/photos'' = [''/photos/photo.jpg'']"
  by (simp add: batch_eval)

text \<open>
  C9 as stated fails. For a folder that does not exist \<^verbatim>\<open>process_folder\<close> returns the
  empty map and leaves the disk alone; nothing is raised.
\<close>

theorem missing_folder_counterexample:
  "listdir env_base ''/nowhere'' = None
   \<and> process_folder env_base ''/nowhere'' (Some ''out'') Map.empty = ([], Map.empty)"
  by (simp add: batch_eval)








lemma glob_unreadable:
  assumes "CHR ''*'' \<notin> set lit" "CHR ''?'' \<notin> set lit" "CHR ''/'' \<notin> set lit"
    and "\<not> has_magic (rstrip_slash folder)"
    and "listdir env (if rstrip_slash folder = [] then ''.'' else rstrip_slash folder) = None"
  shows "glob env (join (rstrip_slash folder) (CHR ''*'' # lit)) = []"
  using assms(4,5) by (simp add: glob_star [OF assms(1-3)])

lemma dict_set_nonempty: "dict_set k v m \<noteq> []"
  by (cases m) (auto split: if_splits)

lemma foldl_dict_set_nonempty:
  "m \<noteq> [] \<Longrightarrow> foldl (\<lambda>m f. dict_set (g f) (h f) m) m fs \<noteq> []"
  by (induction fs arbitrary: m) (auto simp: dict_set_nonempty)

lemma foldl_dict_set_empty:
  "(foldl (\<lambda>m f. dict_set (g f) (h f) m) m fs = []) = (m = [] \<and> fs = [])"
proof (cases fs)
  case Nil
  then show ?thesis by simp
next
  case (Cons f fs')
  have "foldl (\<lambda>m f. dict_set (g f) (h f) m) (dict_set (g f) (h f) m) fs' \<noteq> []"
    by (rule foldl_dict_set_nonempty) (rule dict_set_nonempty)
  with Cons show ?thesis by simp
qed

text \<open>
  C9, as amended. A folder that cannot be scanned (it does not exist) is no failure:
  discovery finds nothing and \<^verbatim>\<open>process_folder\<close> returns the empty map, the disk
  untouched. The map returned is empty exactly when discovery found no file, whether the
  folder is missing or holds no matching file.
\<close>

theorem empty_map_iff_nothing_found:
  "(\<not> has_magic (rstrip_slash folder)
      \<and> listdir env (if rstrip_slash folder = [] then ''.'' else rstrip_slash folder) = None
      \<longrightarrow> process_folder env folder output_dir dsk = ([], dsk))
   \<and> ((fst (process_folder env folder output_dir dsk) = []) =
        (find_videos env folder = [] \<and> find_images env folder = []))"
proof -
  have a: "process_folder env folder output_dir dsk = ([], dsk)"
    if "\<not> has_magic (rstrip_slash folder)"
      and "listdir env (if rstrip_slash folder = [] then ''.'' else rstrip_slash folder) = None"
  proof -
    have "find_videos env folder = []"
      using that by (simp add: find_videos_def video_extensions_def glob_unreadable)
    moreover have "find_images env folder = []"
      using that by (simp add: find_images_def image_extensions_def glob_unreadable)
    ultimately show ?thesis by (simp add: process_folder_def find_all_media_def)
  qed
  have b: "(fst (process_folder env folder output_dir dsk) = []) =
        (find_videos env folder = [] \<and> find_images env folder = [])"
    unfolding process_folder_map foldl_dict_set_empty by auto
  show ?thesis using a b by blast
qed

text \<open>C9 as amended, on a folder that does not exist.\<close>

theorem empty_map_iff_nothing_found_witness:
  "\<not> has_magic (rstrip_slash ''/nowhere/'')
   \<and> listdir env_base ''/nowhere'' = None
   \<and> process_folder env_base ''/nowhere/'' None Map.empty = ([], Map.empty)
   \<and> find_videos env_base ''/nowhere/'' = [] \<and> find_images env_base ''/nowhere/'' = []"
proof -
  have h1: "\<not> has_magic (rstrip_slash ''/nowhere/'')"
    by (simp add: rstrip_slash_def has_magic_def)
  have h2: "listdir env_base (if rstrip_slash ''/nowhere/'' = [] then ''.''
                              else rstrip_slash ''/nowhere/'') = None"
    by (simp add: env_base_def)
  note t = empty_map_iff_nothing_found [of "''/nowhere/''" env_base None Map.empty]
  from t h1 h2 have p: "process_folder env_base ''/nowhere/'' None Map.empty = ([], Map.empty)"
    by blast
  from t p have "find_videos env_base ''/nowhere/'' = [] \<and> find_images env_base ''/nowhere/'' = []"
    by simp
  with h1 p show ?thesis by (simp add: env_base_def)
qed

lemma attempt_skipped_error: "attempt_of env output_dir kind f = Skipped e \<Longrightarrow> \<not> is_success e"
  by (cases kind)
     (auto simp: attempt_of_def video_attempt_def image_attempt_def video_entry_def
        image_entry_def Let_def split: sum.splits proc_result.splits option.splits)

lemma recorded_entry_no_dir: "\<not> is_success (recorded_entry env None kind f)"
  by (cases "attempt_of env None kind f")
     (auto simp: recorded_entry_def save_outcome_def dest: attempt_skipped_error)

lemma dict_set_all: "list_all P m \<Longrightarrow> P (k, v) \<Longrightarrow> list_all P (dict_set k v m)"
  by (induction m) auto

lemma foldl_dict_set_all:
  "list_all P m \<Longrightarrow> (\<And>f. P (g f, h f)) \<Longrightarrow>
     list_all P (foldl (\<lambda>m f. dict_set (g f) (h f) m) m fs)"
  by (induction fs arbitrary: m) (auto simp: dict_set_all)

text \<open>
  C10. Without an output directory no entry of the returned map is a success entry:
  \<^verbatim>\<open>save_results(results, None)\<close> raises inside the \<^verbatim>\<open>try\<close> block of every item that got
  as far as its success entry, and the handler stores an error entry in its place.
\<close>

theorem no_success_without_output_dir:
  "list_all (\<lambda>(k, e). \<not> is_success e) (fst (process_folder env folder None dsk))"
  unfolding process_folder_map
  by (intro foldl_dict_set_all) (auto simp: recorded_entry_no_dir)

text \<open>
  C10 on \<^verbatim>\<open>/data\<close>: the analyzer succeeds on \<^verbatim>\<open>a.mp4\<close> and \<^verbatim>\<open>y.png\<close> and their JSON is
  parsed, yet both are recorded with the error of the save.
\<close>

theorem no_success_without_output_dir_witness:
  "list_all (\<lambda>(k, e). \<not> is_success e) (fst (process_folder env_media ''/data'' None Map.empty))
   \<and> fst (process_folder env_media ''/data'' None Map.empty) =
       [(''a.mp4'', ErrorEntry ''expected str, bytes or os.PathLike object, not NoneType'' Video),
        (''b.mp4'', ErrorEntry ''Return code 1: failed'' Video),
        (''y.png'', ErrorEntry ''expected str, bytes or os.PathLike object, not NoneType'' Image)]"
proof -
  have "fst (process_folder env_media ''/data'' None Map.empty) =
       [(''a.mp4'', ErrorEntry ''expected str, bytes or os.PathLike object, not NoneType'' Video),
        (''b.mp4'', ErrorEntry ''Return code 1: failed'' Video),
        (''y.png'', ErrorEntry ''expected str, bytes or os.PathLike object, not NoneType'' Image)]"
    by (simp add: process_folder_def find_all_media_def media_videos media_images)
       (simp add: batch_eval)
  then show ?thesis
    using no_success_without_output_dir [of env_media "''/data''" Map.empty] by simp
qed

end
